theory Spec2Isabelle
  imports Main
begin

section \<open>PO2XL: the purchase-order extraction script\<close>

text \<open>
  The program is one Streamlit script, \<^verbatim>\<open>PO2XL.py\<close>: three helper functions
  (\<^verbatim>\<open>get_po_details\<close>, \<^verbatim>\<open>input_image_setup\<close>, \<^verbatim>\<open>process_pdf\<close>) and the
  top-level flow that reads an upload, calls the hosted model, parses the answer with
  pandas and offers a spreadsheet. The embedding keeps that shape. What the script shows
  to the user and which library calls it issues are recorded, in order, as a list of
  events; an exception is a value; the libraries the script calls (PIL, PyMuPDF, the
  hosted model, \<^verbatim>\<open>pandas.read_csv\<close>, \<^verbatim>\<open>DataFrame.to_excel\<close>) and the two
  Streamlit calls that are handed the table and the spreadsheet are fields of an
  environment record, each returning either the exception it raises or its result.
\<close>

subsection \<open>Values\<close>

text \<open>
  Byte strings and Python strings are both \<open>string\<close>, a list of bytes: a Python
  \<^verbatim>\<open>str\<close> is held as its UTF-8 encoding, so \<^verbatim>\<open>str.encode()\<close> is the identity, and
  the operations of the script that work on characters (\<^verbatim>\<open>strip\<close>, slicing) are
  written over the encoding, a character being a byte below 128 or a lead byte with its
  continuation bytes.
\<close>

type_synonym bytes = string

type_synonym image = string

text \<open>
  A raised exception: its class name and \<^verbatim>\<open>str(e)\<close>, the text an f-string prints.
  Every exception of the model is a subclass of \<^verbatim>\<open>Exception\<close>, the class both
  \<^verbatim>\<open>except\<close> clauses of the script catch.
\<close>

datatype exc = Exc (exc_class: string) (exc_str: string)

definition quoted :: "string \<Rightarrow> string" where
  "quoted s = [CHR 0x27] @ s @ [CHR 0x27]"

definition none_has_no_attribute :: "string \<Rightarrow> exc" where
  "none_has_no_attribute a =
     Exc ''AttributeError''
       (quoted ''NoneType'' @ '' object has no attribute '' @ quoted a)"

text \<open>The entry of the list \<^verbatim>\<open>image_parts\<close>: a dict with the keys mime_type and data.\<close>

record part =
  mime_type :: string
  data :: bytes

text \<open>
  The uploaded file object: its \<^verbatim>\<open>type\<close> attribute and the two methods the script
  calls on it. Both stand inside a \<^verbatim>\<open>try\<close>, so each may raise.
\<close>

record uploaded_file =
  file_type :: string
  getvalue :: "exc + bytes"
  read_file :: "exc + bytes"

text \<open>
  A pandas row label. \<^verbatim>\<open>read_csv\<close> labels rows 0, 1, 2, ... unless the data lines
  have more fields than the header, in which case the leading fields become the labels.
\<close>

datatype label = IntLabel int | StrLabel string

text \<open>
  A DataFrame: the column names, the row labels and the rows of cells. The type of a cell
  is left open, since pandas infers it per column.
\<close>

record 'c dataframe =
  columns :: "string list"
  index :: "label list"
  rows :: "'c list list"

subsection \<open>Events\<close>

datatype 'c event =
    St_markdown string
  | St_title string
  | St_file_uploader string "string list"
  | St_image image string nat
  | St_subheader string
  | St_text_area string string nat
  | St_dataframe "'c dataframe"
  | St_download_button string bytes string string
  | St_error string
  | St_warning string
  | Generate_content string part string
  | Read_csv string
  | To_excel "'c dataframe"

fun is_generate_content :: "'c event \<Rightarrow> bool" where
  "is_generate_content (Generate_content m p q) = True"
| "is_generate_content e = False"

fun is_download_button :: "'c event \<Rightarrow> bool" where
  "is_download_button (St_download_button l b f m) = True"
| "is_download_button e = False"

fun is_dataframe :: "'c event \<Rightarrow> bool" where
  "is_dataframe (St_dataframe df) = True"
| "is_dataframe e = False"

fun is_read_csv :: "'c event \<Rightarrow> bool" where
  "is_read_csv (Read_csv s) = True"
| "is_read_csv e = False"

fun is_message :: "'c event \<Rightarrow> bool" where
  "is_message (St_error s) = True"
| "is_message (St_warning s) = True"
| "is_message e = False"

subsection \<open>The environment\<close>

text \<open>
  \<^item> \<open>secrets\<close>: the lookup \<^verbatim>\<open>st.secrets[name]\<close>, which raises when the store or
    the name is missing;
  \<^item> \<open>image_open\<close>: \<^verbatim>\<open>Image.open(uploaded_file)\<close>;
  \<^item> \<open>fitz_document\<close>: writing the bytes to a temporary file and opening it with
    \<^verbatim>\<open>fitz.open\<close>; the result is the document's pages, each given by what its
    \<^verbatim>\<open>get_text("text")\<close> returns or raises;
  \<^item> \<open>generate_content\<close>: \<^verbatim>\<open>model.generate_content([part, prompt])\<close> on the named
    model followed by reading \<^verbatim>\<open>response.text\<close>: the exception either of them raises,
    or the text;
  \<^item> \<open>read_csv\<close>: \<^verbatim>\<open>pd.read_csv(StringIO(text), delimiter='|')\<close>;
  \<^item> \<open>to_excel\<close>: \<^verbatim>\<open>df.to_excel(buffer, index=False, engine='openpyxl')\<close>, giving
    the buffer's bytes;
  \<^item> \<open>st_dataframe\<close> and \<open>st_download_button\<close>: the two Streamlit calls inside the
    \<^verbatim>\<open>try\<close> that are handed the table and the buffer; each shows its element or
    raises.
\<close>

record 'c env =
  secrets :: "string \<Rightarrow> exc + string"
  image_open :: "uploaded_file \<Rightarrow> exc + image"
  fitz_document :: "bytes \<Rightarrow> exc + (exc + string) list"
  generate_content :: "string \<Rightarrow> part \<Rightarrow> string \<Rightarrow> exc + string"
  read_csv :: "string \<Rightarrow> exc + 'c dataframe"
  to_excel :: "'c dataframe \<Rightarrow> exc + bytes"
  st_dataframe :: "'c dataframe \<Rightarrow> exc + unit"
  st_download_button :: "bytes \<Rightarrow> exc + unit"

text \<open>The outcome of one run of the script: what happened, and the exception that aborted it, if any.\<close>

record 'c run =
  events :: "'c event list"
  unhandled :: "exc option"

subsection \<open>Constants of the script\<close>

definition input_prompt :: string where
  "input_prompt = concat
    [''\<newline>'',
     ''                       You are an expert in reading Purchase Orders.\<newline>'',
     ''                       Extract the following details from the Purchase Order document:\<newline>'',
     ''                       - Vendor Name\<newline>'',
     ''                       - Vendor City\<newline>'',
     ''                       - Item Code\<newline>'',
     ''                       - Item Name\<newline>'',
     ''                       - Number of Items Requested\<newline>'',
     ''                       - Unit Price\<newline>'',
     ''                       - Total Price\<newline>'',
     ''                       \<newline>'',
     ''                        If any of the above details are missing, please fill them with Null().\<newline>'',
     ''                        Present the information as a clean, \<newline>'',
     ''                        table-like DataFrame output in plain text.\<newline>'',
     ''                        Do not include any code or extra lines. \<newline>'',
     ''                        Format the table to resemble a typical DataFrame displayed in Python terminals.\<newline>'',
     ''                        Map Vendor Name and Vendor City to all the other details.\<newline>'',
     ''                       '']"

definition gradient_css :: string where
  "gradient_css = concat
    [''\<newline>'',
     ''<style>\<newline>'',
     ''body {\<newline>'',
     ''    background: linear-gradient(135deg, #ff7e5f, #feb47b); \<newline>'',
     ''    color: #5F9EA0; \<newline>'',
     ''    font-family: Arial, sans-serif; \<newline>'',
     ''}\<newline>'',
     ''</style>\<newline>'']"

subsection \<open>\<^verbatim>\<open>get_po_details\<close>\<close>

text \<open>
  The body of the \<^verbatim>\<open>try\<close>: \<^verbatim>\<open>image_parts[0]\<close> raises IndexError on an empty list;
  the call is issued once; an empty text raises ValueError. The handler reports whatever
  was raised and returns None.
\<close>

definition get_po_details :: "'c env \<Rightarrow> part list \<Rightarrow> 'c event list \<times> string option" where
  "get_po_details env image_parts =
     (case image_parts of
        [] \<Rightarrow>
          ([St_error (''Error with Gemini model: '' @ ''list index out of range'')], None)
      | p # ps \<Rightarrow>
          (case generate_content env ''gemini-1.5-flash'' p input_prompt of
             Inl e \<Rightarrow>
               ([Generate_content ''gemini-1.5-flash'' p input_prompt,
                 St_error (''Error with Gemini model: '' @ exc_str e)], None)
           | Inr text \<Rightarrow>
               if text = [] then
                 ([Generate_content ''gemini-1.5-flash'' p input_prompt,
                   St_error (''Error with Gemini model: '' @ ''Empty response from the API.'')],
                  None)
               else ([Generate_content ''gemini-1.5-flash'' p input_prompt], Some text)))"

subsection \<open>\<^verbatim>\<open>input_image_setup\<close>\<close>

definition input_image_setup ::
  "uploaded_file option \<Rightarrow> 'c event list \<times> part list option" where
  "input_image_setup uploaded =
     (case uploaded of
        None \<Rightarrow> ([St_warning ''No file uploaded.''], None)
      | Some f \<Rightarrow>
          (case getvalue f of
             Inl e \<Rightarrow> ([St_error (''Error processing image: '' @ exc_str e)], None)
           | Inr bytes_data \<Rightarrow>
               ([], Some [\<lparr>mime_type = file_type f, data = bytes_data\<rparr>])))"

subsection \<open>\<^verbatim>\<open>process_pdf\<close>\<close>

text \<open>The loop over the pages: \<^verbatim>\<open>pdf_text += pdf_document[page_num].get_text("text")\<close>.\<close>

fun get_text_pages :: "(exc + string) list \<Rightarrow> string \<Rightarrow> exc + string" where
  "get_text_pages [] pdf_text = Inr pdf_text"
| "get_text_pages (Inl e # pages) pdf_text = Inl e"
| "get_text_pages (Inr t # pages) pdf_text = get_text_pages pages (pdf_text @ t)"

definition pdf_text_of :: "'c env \<Rightarrow> uploaded_file \<Rightarrow> exc + string" where
  "pdf_text_of env f =
     (case read_file f of
        Inl e \<Rightarrow> Inl e
      | Inr b \<Rightarrow>
          (case fitz_document env b of
             Inl e \<Rightarrow> Inl e
           | Inr pages \<Rightarrow> get_text_pages pages []))"

definition process_pdf :: "'c env \<Rightarrow> uploaded_file \<Rightarrow> 'c event list \<times> string option" where
  "process_pdf env f =
     (case pdf_text_of env f of
        Inl e \<Rightarrow> ([St_error (''Error processing PDF: '' @ exc_str e)], None)
      | Inr pdf_text \<Rightarrow> ([], Some pdf_text))"

subsection \<open>The string operations of the script\<close>

text \<open>
  The characters Python's \<^verbatim>\<open>str.isspace\<close> accepts, each as its UTF-8 encoding: the
  code points 9 to 13, 28 to 32, U+0085, U+00A0, U+1680, U+2000 to U+200A, U+2028, U+2029,
  U+202F, U+205F and U+3000.
\<close>

definition py_whitespace :: "string list" where
  "py_whitespace =
     [[CHR 0x09], [CHR 0x0A], [CHR 0x0B], [CHR 0x0C], [CHR 0x0D],
      [CHR 0x1C], [CHR 0x1D], [CHR 0x1E], [CHR 0x1F], [CHR 0x20],
      [CHR 0xC2, CHR 0x85], [CHR 0xC2, CHR 0xA0],
      [CHR 0xE1, CHR 0x9A, CHR 0x80],
      [CHR 0xE2, CHR 0x80, CHR 0x80], [CHR 0xE2, CHR 0x80, CHR 0x81],
      [CHR 0xE2, CHR 0x80, CHR 0x82], [CHR 0xE2, CHR 0x80, CHR 0x83],
      [CHR 0xE2, CHR 0x80, CHR 0x84], [CHR 0xE2, CHR 0x80, CHR 0x85],
      [CHR 0xE2, CHR 0x80, CHR 0x86], [CHR 0xE2, CHR 0x80, CHR 0x87],
      [CHR 0xE2, CHR 0x80, CHR 0x88], [CHR 0xE2, CHR 0x80, CHR 0x89],
      [CHR 0xE2, CHR 0x80, CHR 0x8A],
      [CHR 0xE2, CHR 0x80, CHR 0xA8], [CHR 0xE2, CHR 0x80, CHR 0xA9],
      [CHR 0xE2, CHR 0x80, CHR 0xAF], [CHR 0xE2, CHR 0x81, CHR 0x9F],
      [CHR 0xE3, CHR 0x80, CHR 0x80]]"

text \<open>
  Removing from the front of a text every leading occurrence of one of the given byte
  sequences. No encoding of a character is the beginning or the end of the encoding of
  another, so on the encoding of a string this removes the leading characters of the set.
\<close>

function strip_leading :: "string list \<Rightarrow> string \<Rightarrow> string" where
  "strip_leading ws s =
     (case find (\<lambda>w. w \<noteq> [] \<and> take (length w) s = w) ws of
        None \<Rightarrow> s
      | Some w \<Rightarrow> strip_leading ws (drop (length w) s))"
  by pat_completeness auto
termination
proof (relation "measure (\<lambda>(ws, s). length s)")
  show "wf (measure (\<lambda>(ws, s). length s))" by simp
next
  fix ws :: "string list" and s w :: string
  assume "find (\<lambda>w. w \<noteq> [] \<and> take (length w) s = w) ws = Some w"
  then have "w \<noteq> []" and "take (length w) s = w"
    by (auto simp: find_Some_iff)
  then have "s \<noteq> []" by auto
  with \<open>w \<noteq> []\<close> show "((ws, drop (length w) s), (ws, s)) \<in> measure (\<lambda>(ws, s). length s)"
    by simp
qed

text \<open>
  \<^verbatim>\<open>str.strip()\<close>: the leading whitespace characters are removed, then the trailing
  ones (the same removal on the reversed text, with the encodings reversed).
\<close>

definition py_lstrip :: "string \<Rightarrow> string" where
  "py_lstrip s = strip_leading py_whitespace s"

definition py_rstrip :: "string \<Rightarrow> string" where
  "py_rstrip s = rev (strip_leading (map rev py_whitespace) (rev s))"

definition py_strip :: "string \<Rightarrow> string" where
  "py_strip s = py_rstrip (py_lstrip s)"

text \<open>
  The slice \<^verbatim>\<open>text[:n]\<close>: the first \<open>n\<close> characters. A byte from 128 to 191 continues
  the character before it and is not counted.
\<close>

fun utf8_take :: "nat \<Rightarrow> string \<Rightarrow> string" where
  "utf8_take n [] = []"
| "utf8_take n (c # s) =
     (if 128 \<le> (of_char c :: nat) \<and> (of_char c :: nat) < 192 then c # utf8_take n s
      else (case n of 0 \<Rightarrow> [] | Suc m \<Rightarrow> c # utf8_take m s))"

subsection \<open>The pandas operations of the parser\<close>

text \<open>
  \<^verbatim>\<open>df.columns.str.contains('^Unnamed')\<close>: a regular-expression search anchored at
  the start of the name, so the name begins with the seven characters \<^verbatim>\<open>Unnamed\<close>.
\<close>

definition contains_Unnamed :: "string \<Rightarrow> bool" where
  "contains_Unnamed name = (take 7 name = ''Unnamed'')"

text \<open>Selection by a boolean mask, by position.\<close>

definition select :: "bool list \<Rightarrow> 'a list \<Rightarrow> 'a list" where
  "select keep xs = map snd (filter fst (zip keep xs))"

text \<open>\<^verbatim>\<open>df.loc[:, mask]\<close>\<close>

definition loc_columns :: "bool list \<Rightarrow> 'c dataframe \<Rightarrow> 'c dataframe" where
  "loc_columns keep df =
     df\<lparr>columns := select keep (columns df), rows := map (select keep) (rows df)\<rparr>"

text \<open>
  \<^verbatim>\<open>df.drop(0)\<close>: every row labelled 0 is removed; KeyError when no row has that label.
\<close>

definition drop_label :: "label \<Rightarrow> 'c dataframe \<Rightarrow> exc + 'c dataframe" where
  "drop_label l df =
     (if l \<in> set (index df) then
        Inr (df\<lparr>index := filter (\<lambda>k. k \<noteq> l) (index df),
                rows := map snd (filter (\<lambda>kr. fst kr \<noteq> l) (zip (index df) (rows df)))\<rparr>)
      else Inl (Exc ''KeyError'' (quoted ''[0] not found in axis'')))"

text \<open>\<^verbatim>\<open>df.reset_index(drop=True)\<close>\<close>

definition reset_index :: "'c dataframe \<Rightarrow> 'c dataframe" where
  "reset_index df = df\<lparr>index := map (\<lambda>i. IntLabel (int i)) [0..<length (index df)]\<rparr>"

text \<open>Lines 142 to 146: the three steps between reading the table and showing it.\<close>

definition clean_table :: "'c dataframe \<Rightarrow> exc + 'c dataframe" where
  "clean_table df =
     (case drop_label (IntLabel 0)
             (loc_columns (map (\<lambda>name. \<not> contains_Unnamed name) (columns df)) df) of
        Inl e \<Rightarrow> Inl e
      | Inr df' \<Rightarrow> Inr (reset_index df'))"

subsection \<open>The top-level flow\<close>

text \<open>
  The body of the \<^verbatim>\<open>try\<close> of lines 134 to 164: the events it produces and the exception
  it raises, if any. \<^verbatim>\<open>response.strip()\<close> on None raises AttributeError; the reading,
  the cleaning, the display of the table, the export and the download button each may
  raise, and what stands after the raising call is not run.
\<close>

definition download_mime :: string where
  "download_mime = ''application/vnd.openxmlformats-officedocument.spreadsheetml.sheet''"

definition process_response :: "'c env \<Rightarrow> string option \<Rightarrow> 'c event list \<times> exc option" where
  "process_response env response =
     (case response of
        None \<Rightarrow> ([], Some (none_has_no_attribute ''strip''))
      | Some r \<Rightarrow>
          if py_strip r \<noteq> [] then
            (case read_csv env r of
               Inl e \<Rightarrow> ([Read_csv r], Some e)
             | Inr df \<Rightarrow>
                 (case clean_table df of
                    Inl e \<Rightarrow> ([Read_csv r], Some e)
                  | Inr df' \<Rightarrow>
                      (case st_dataframe env df' of
                         Inl e \<Rightarrow> ([Read_csv r], Some e)
                       | Inr shown \<Rightarrow>
                           (case to_excel env df' of
                              Inl e \<Rightarrow> ([Read_csv r, St_dataframe df', To_excel df'], Some e)
                            | Inr buffer \<Rightarrow>
                                (case st_download_button env buffer of
                                   Inl e \<Rightarrow>
                                     ([Read_csv r, St_dataframe df', To_excel df'], Some e)
                                 | Inr offered \<Rightarrow>
                                     ([Read_csv r, St_dataframe df', To_excel df',
                                       St_download_button ''Download as Excel'' buffer
                                         ''data.xlsx'' download_mime], None))))))
          else ([St_error ''The response is empty. Unable to extract data.''], None))"

text \<open>Lines 129 to 167: the guard, the call and the handler around the parsing.\<close>

definition extract_details :: "'c env \<Rightarrow> part list option \<Rightarrow> 'c event list" where
  "extract_details env image_data =
     (case image_data of
        None \<Rightarrow> []
      | Some [] \<Rightarrow> []
      | Some (p # ps) \<Rightarrow>
          (case get_po_details env (p # ps) of
             (ev, response) \<Rightarrow>
               (case process_response env response of
                  (ev', None) \<Rightarrow> St_subheader ''Extracted Purchase Order Details'' # ev @ ev'
                | (ev', Some e) \<Rightarrow>
                    St_subheader ''Extracted Purchase Order Details'' # ev @ ev' @
                    [St_error (''Failed to process the response. Please try again. Error: ''
                               @ exc_str e)])))"

text \<open>
  Lines 113 to 125: the intake. \<^verbatim>\<open>Image.open\<close> and \<^verbatim>\<open>pdf_text.encode()\<close> stand
  outside every handler, so what they raise leaves the script.
\<close>

definition intake ::
  "'c env \<Rightarrow> uploaded_file option \<Rightarrow> 'c event list \<times> (exc + part list option)" where
  "intake env uploaded =
     (case uploaded of
        None \<Rightarrow> ([], Inr None)
      | Some f \<Rightarrow>
          if file_type f \<in> set [''image/jpeg'', ''image/png'', ''image/jpg''] then
            (case image_open env f of
               Inl e \<Rightarrow> ([], Inl e)
             | Inr img \<Rightarrow>
                 (case input_image_setup (Some f) of
                    (ev, image_data) \<Rightarrow>
                      (St_image img ''Uploaded PO Image'' 800 # ev, Inr image_data)))
          else if file_type f = ''application/pdf'' then
            (case process_pdf env f of
               (ev, None) \<Rightarrow> (ev, Inl (none_has_no_attribute ''encode''))
             | (ev, Some pdf_text) \<Rightarrow>
                 (ev @
                  (if pdf_text \<noteq> [] then
                     [St_subheader ''Uploaded PDF Content Preview'',
                      St_text_area ''PDF Content'' (utf8_take 1500 pdf_text @ ''...'') 400]
                   else []),
                  Inr (Some [\<lparr>mime_type = ''text/plain'', data = pdf_text\<rparr>])))
          else ([], Inr None))"

text \<open>The whole script, from the secret lookup of line 17 to the end.\<close>

definition page_head :: "'c event list" where
  "page_head =
     [St_markdown gradient_css, St_title ''CPO Helper'',
      St_file_uploader ''Upload a Purchase Order (JPG, JPEG, PNG, or PDF)''
        [''jpg'', ''jpeg'', ''png'', ''pdf'']]"

definition script :: "'c env \<Rightarrow> uploaded_file option \<Rightarrow> 'c run" where
  "script env uploaded =
     (case secrets env ''GOOGLE_API_KEY'' of
        Inl e \<Rightarrow> \<lparr>events = [], unhandled = Some e\<rparr>
      | Inr api_key \<Rightarrow>
          (case intake env uploaded of
             (ev, Inl e) \<Rightarrow> \<lparr>events = page_head @ ev, unhandled = Some e\<rparr>
           | (ev, Inr image_data) \<Rightarrow>
               \<lparr>events = page_head @ ev @ extract_details env image_data,
                unhandled = None\<rparr>))"

subsection \<open>Example inputs\<close>

text \<open>
  An upload of a given media type, and an environment in which the secret is set, the
  image opens, the table and the download button are shown, and the PDF reader, the hosted
  model and the table reader return the given results whatever their arguments.
\<close>

definition demo_upload :: "string \<Rightarrow> uploaded_file" where
  "demo_upload t = \<lparr>file_type = t, getvalue = Inr ''bytes'', read_file = Inr ''bytes''\<rparr>"

definition demo_env ::
  "(exc + (exc + string) list) \<Rightarrow> (exc + string) \<Rightarrow> (exc + 'c dataframe) \<Rightarrow> 'c env" where
  "demo_env pdf answer table =
     \<lparr>secrets = (\<lambda>name. if name = ''GOOGLE_API_KEY'' then Inr ''secret''
                         else Inl (Exc ''KeyError'' (quoted name))),
      image_open = (\<lambda>f. Inr ''image''),
      fitz_document = (\<lambda>b. pdf),
      generate_content = (\<lambda>m p q. answer),
      read_csv = (\<lambda>s. table),
      to_excel = (\<lambda>df. Inr ''xlsx''),
      st_dataframe = (\<lambda>df. Inr ()),
      st_download_button = (\<lambda>b. Inr ())\<rparr>"

text \<open>
  An answer of three lines with no pipe in it, and the table pandas reads from it: one
  column named by the first line, the other two lines as its rows, labelled 0 and 1.
\<close>

definition one_column_text :: string where
  "one_column_text = ''Vendor\<newline>Acme\<newline>Globex''"

definition one_column_table :: "string dataframe" where
  "one_column_table =
     \<lparr>columns = [''Vendor''], index = [IntLabel 0, IntLabel 1],
      rows = [[''Acme''], [''Globex'']]\<rparr>"

text \<open>
  An answer in the shape the prompt asks for, each line opening and closing with a pipe,
  and the table pandas reads from it: the empty first and last fields of the header become
  the placeholder columns, and the rule under the header is the first data row. A cell is
  \<open>None\<close> where the field is empty.
\<close>

definition piped_text :: string where
  "piped_text = concat
     [''| Vendor Name | Item Name |\<newline>'',
      ''|---|---|\<newline>'',
      ''| Acme | Bolt |\<newline>'',
      ''| Acme | Nut |\<newline>'']"

definition piped_table :: "string option dataframe" where
  "piped_table =
     \<lparr>columns = [''Unnamed: 0'', '' Vendor Name '', '' Item Name '', ''Unnamed: 3''],
      index = [IntLabel 0, IntLabel 1, IntLabel 2],
      rows = [[None, Some ''---'', Some ''---'', None],
              [None, Some '' Acme '', Some '' Bolt '', None],
              [None, Some '' Acme '', Some '' Nut '', None]]\<rparr>"

text \<open>An answer made of one no-break space, U+00A0, and nothing else.\<close>

definition no_break_space_text :: string where
  "no_break_space_text = [CHR 0xC2, CHR 0xA0]"

text \<open>An answer that is a header line alone, and the table of no rows read from it.\<close>

definition header_only_text :: string where
  "header_only_text = ''Vendor Name|Item Name''"

definition header_only_table :: "string dataframe" where
  "header_only_table =
     \<lparr>columns = [''Vendor Name'', ''Item Name''], index = [], rows = []\<rparr>"



definition quota_error :: exc where
  "quota_error = Exc ''ResourceExhausted'' ''429 Resource has been exhausted''"

definition broken_pdf_error :: exc where
  "broken_pdf_error = Exc ''FileDataError'' ''Failed to open file''"

section \<open>Supporting lemmas\<close>

subsection \<open>The script, case by case\<close>

lemma script_result:
  "secrets env ''GOOGLE_API_KEY'' = Inr k \<Longrightarrow> intake env uploaded = (ev, Inr d) \<Longrightarrow>
   script env uploaded = \<lparr>events = page_head @ ev @ extract_details env d, unhandled = None\<rparr>"
  by (simp add: script_def)

lemma script_abort:
  "secrets env ''GOOGLE_API_KEY'' = Inr k \<Longrightarrow> intake env uploaded = (ev, Inl e) \<Longrightarrow>
   script env uploaded = \<lparr>events = page_head @ ev, unhandled = Some e\<rparr>"
  by (simp add: script_def)

lemma script_no_secret:
  "secrets env ''GOOGLE_API_KEY'' = Inl e \<Longrightarrow>
   script env uploaded = \<lparr>events = [], unhandled = Some e\<rparr>"
  by (simp add: script_def)

lemma input_image_setup_quiet:
  "input_image_setup u = (ev, d) \<Longrightarrow>
   filter is_generate_content ev = [] \<and> filter is_download_button ev = [] \<and>
   filter is_dataframe ev = [] \<and> filter is_read_csv ev = []"
  by (auto simp: input_image_setup_def split: option.splits sum.splits)

lemma process_pdf_quiet:
  "process_pdf env f = (ev, d) \<Longrightarrow>
   filter is_generate_content ev = [] \<and> filter is_download_button ev = [] \<and>
   filter is_dataframe ev = [] \<and> filter is_read_csv ev = []"
  by (auto simp: process_pdf_def split: sum.splits)

lemma intake_quiet:
  "intake env uploaded = (ev, d) \<Longrightarrow>
   filter is_generate_content ev = [] \<and> filter is_download_button ev = [] \<and>
   filter is_dataframe ev = [] \<and> filter is_read_csv ev = []"
  by (auto simp: intake_def split: option.splits sum.splits if_splits prod.splits
      dest: input_image_setup_quiet process_pdf_quiet)

subsection \<open>The table operations\<close>

lemma select_map_filter: "select (map P xs) xs = filter P xs"
  by (induction xs) (simp_all add: select_def)

lemma drop_first_of_range:
  "map snd (filter (\<lambda>kr. fst kr \<noteq> IntLabel 0)
      (zip (map (\<lambda>i. IntLabel (int i)) [0..<length xs]) xs)) = tl xs"
proof (cases xs)
  case Nil
  then show ?thesis by simp
next
  case (Cons x ys)
  have keep: "filter (\<lambda>kr. fst kr \<noteq> IntLabel 0)
      (zip (map (\<lambda>i. IntLabel (int i)) (map Suc [0..<length ys])) ys)
    = zip (map (\<lambda>i. IntLabel (int i)) (map Suc [0..<length ys])) ys"
    by (rule filter_True) (auto dest!: set_zip_leftD)
  have "[0..<length xs] = 0 # map Suc [0..<length ys]"
    using Cons by (simp add: upt_conv_Cons map_Suc_upt del: upt_Suc)
  then show ?thesis
    using Cons keep by simp
qed

lemma range_without_zero:
  "filter (\<lambda>k. k \<noteq> IntLabel 0) (map (\<lambda>i. IntLabel (int i)) [0..<n])
   = map (\<lambda>i. IntLabel (int i)) [1..<n]"
proof (cases n)
  case 0
  then show ?thesis by simp
next
  case (Suc m)
  have "[0..<Suc m] = 0 # [1..<Suc m]"
    by (simp add: upt_conv_Cons del: upt_Suc)
  then show ?thesis
    using Suc by (simp add: filter_map comp_def del: upt_Suc)
qed


subsection \<open>The extraction stage\<close>

lemma py_strip_Nil [simp]: "py_strip [] = []"
  by (simp add: py_strip_def py_lstrip_def py_rstrip_def strip_leading.simps py_whitespace_def)

lemma get_po_details_raises:
  "generate_content env ''gemini-1.5-flash'' p input_prompt = Inl e \<Longrightarrow>
   get_po_details env (p # ps) =
     ([Generate_content ''gemini-1.5-flash'' p input_prompt,
       St_error (''Error with Gemini model: '' @ exc_str e)], None)"
  by (simp add: get_po_details_def)

lemma get_po_details_returns:
  "generate_content env ''gemini-1.5-flash'' p input_prompt = Inr r \<Longrightarrow>
   get_po_details env (p # ps) =
     (if r = [] then
        ([Generate_content ''gemini-1.5-flash'' p input_prompt,
          St_error (''Error with Gemini model: '' @ ''Empty response from the API.'')], None)
      else ([Generate_content ''gemini-1.5-flash'' p input_prompt], Some r))"
  by (simp add: get_po_details_def)

lemma get_po_details_one_call:
  "length (filter is_generate_content (fst (get_po_details env (p # ps)))) = 1"
  by (simp add: get_po_details_def split: sum.splits)

lemma process_response_no_call:
  "filter is_generate_content (fst (process_response env response)) = []"
  by (simp add: process_response_def split: option.splits sum.splits)

lemma extract_details_raises:
  "generate_content env ''gemini-1.5-flash'' p input_prompt = Inl e \<Longrightarrow>
   extract_details env (Some (p # ps)) =
     [St_subheader ''Extracted Purchase Order Details'',
      Generate_content ''gemini-1.5-flash'' p input_prompt,
      St_error (''Error with Gemini model: '' @ exc_str e),
      St_error (''Failed to process the response. Please try again. Error: ''
                @ exc_str (none_has_no_attribute ''strip''))]"
  by (simp add: extract_details_def get_po_details_raises process_response_def)

lemma extract_details_empty:
  "generate_content env ''gemini-1.5-flash'' p input_prompt = Inr [] \<Longrightarrow>
   extract_details env (Some (p # ps)) =
     [St_subheader ''Extracted Purchase Order Details'',
      Generate_content ''gemini-1.5-flash'' p input_prompt,
      St_error (''Error with Gemini model: '' @ ''Empty response from the API.''),
      St_error (''Failed to process the response. Please try again. Error: ''
                @ exc_str (none_has_no_attribute ''strip''))]"
  by (simp add: extract_details_def get_po_details_returns process_response_def)

lemma extract_details_blank:
  "generate_content env ''gemini-1.5-flash'' p input_prompt = Inr r \<Longrightarrow> r \<noteq> [] \<Longrightarrow>
   py_strip r = [] \<Longrightarrow>
   extract_details env (Some (p # ps)) =
     [St_subheader ''Extracted Purchase Order Details'',
      Generate_content ''gemini-1.5-flash'' p input_prompt,
      St_error ''The response is empty. Unable to extract data.'']"
  by (simp add: extract_details_def get_po_details_returns process_response_def)

lemma extract_details_text:
  "generate_content env ''gemini-1.5-flash'' p input_prompt = Inr r \<Longrightarrow>
   py_strip r \<noteq> [] \<Longrightarrow>
   extract_details env (Some (p # ps)) =
     St_subheader ''Extracted Purchase Order Details'' #
     Generate_content ''gemini-1.5-flash'' p input_prompt #
     (case process_response env (Some r) of
        (ev', None) \<Rightarrow> ev'
      | (ev', Some e) \<Rightarrow>
          ev' @ [St_error (''Failed to process the response. Please try again. Error: ''
                           @ exc_str e)])"
  by (auto simp: extract_details_def get_po_details_returns split: prod.splits option.splits)

lemma process_response_unreadable:
  "py_strip r \<noteq> [] \<Longrightarrow> read_csv env r = Inl e \<Longrightarrow>
   process_response env (Some r) = ([Read_csv r], Some e)"
  by (simp add: process_response_def)

lemma process_response_unclean:
  "py_strip r \<noteq> [] \<Longrightarrow> read_csv env r = Inr df \<Longrightarrow> clean_table df = Inl e \<Longrightarrow>
   process_response env (Some r) = ([Read_csv r], Some e)"
  by (simp add: process_response_def)

lemma clean_table_no_zero:
  "IntLabel 0 \<notin> set (index df) \<Longrightarrow>
   clean_table df = Inl (Exc ''KeyError'' (quoted ''[0] not found in axis''))"
  by (simp add: clean_table_def drop_label_def loc_columns_def)

lemma extract_details_count:
  "length (filter is_generate_content (extract_details env d)) =
     (case d of None \<Rightarrow> 0 | Some [] \<Rightarrow> 0 | Some (p # ps) \<Rightarrow> 1)"
proof (cases d)
  case None
  then show ?thesis by (simp add: extract_details_def)
next
  case (Some parts)
  show ?thesis
  proof (cases parts)
    case Nil
    with Some show ?thesis by (simp add: extract_details_def)
  next
    case (Cons p ps)
    obtain ev response where g: "get_po_details env (p # ps) = (ev, response)"
      by (cases "get_po_details env (p # ps)")
    obtain ev' r where pr: "process_response env response = (ev', r)"
      by (cases "process_response env response")
    have one: "length (filter is_generate_content ev) = 1"
      using get_po_details_one_call [of env p ps] g by simp
    have none: "filter is_generate_content ev' = []"
      using process_response_no_call [of env response] pr by simp
    show ?thesis
      using Some Cons g pr one none
      by (cases r) (simp_all add: extract_details_def)
  qed
qed





lemma process_response_clean:
  "py_strip r \<noteq> [] \<Longrightarrow> read_csv env r = Inr df \<Longrightarrow> clean_table df = Inr df' \<Longrightarrow>
   filter is_dataframe (fst (process_response env (Some r))) =
     (case st_dataframe env df' of Inl e \<Rightarrow> [] | Inr u \<Rightarrow> [St_dataframe df'])"
  by (simp add: process_response_def split: sum.splits)




lemma clean_table_range:
  assumes "index df = map (\<lambda>i. IntLabel (int i)) [0..<length (rows df)]"
    and "rows df \<noteq> []"
  shows "clean_table df =
     Inr \<lparr>columns = filter (\<lambda>name. \<not> contains_Unnamed name) (columns df),
          index = map (\<lambda>i. IntLabel (int i)) [0..<length (rows df) - 1],
          rows = map (select (map (\<lambda>name. \<not> contains_Unnamed name) (columns df)))
                   (tl (rows df))\<rparr>"
proof -
  let ?keep = "map (\<lambda>name. \<not> contains_Unnamed name) (columns df)"
  let ?cut = "map (select ?keep) (rows df)"
  have zero: "IntLabel 0 \<in> set (index df)"
    using assms by (cases "rows df") (simp_all add: upt_conv_Cons del: upt_Suc)
  have len: "length ?cut = length (rows df)" by simp
  have r: "map snd (filter (\<lambda>kr. fst kr \<noteq> IntLabel 0) (zip (index df) ?cut)) = tl ?cut"
    using drop_first_of_range [of ?cut] assms(1) by simp
  have i: "filter (\<lambda>k. k \<noteq> IntLabel 0) (index df)
           = map (\<lambda>i. IntLabel (int i)) [1..<length (rows df)]"
    using assms(1) range_without_zero [of "length (rows df)"] by simp
  show ?thesis
    using zero r i
    by (simp add: clean_table_def drop_label_def loc_columns_def reset_index_def
        select_map_filter map_tl)
qed

subsection \<open>The example inputs evaluated\<close>

lemma demo_env_simps:
  "secrets (demo_env pdf answer table) ''GOOGLE_API_KEY'' = Inr ''secret''"
  "image_open (demo_env pdf answer table) f = Inr ''image''"
  "fitz_document (demo_env pdf answer table) b = pdf"
  "generate_content (demo_env pdf answer table) m p q = answer"
  "read_csv (demo_env pdf answer table) s = table"
  "to_excel (demo_env pdf answer table) df = Inr ''xlsx''"
  "st_dataframe (demo_env pdf answer table) df = Inr ()"
  "st_download_button (demo_env pdf answer table) b = Inr ()"
  by (simp_all add: demo_env_def)

lemma intake_demo_png:
  "intake (demo_env pdf answer table) (Some (demo_upload ''image/png'')) =
     ([St_image ''image'' ''Uploaded PO Image'' 800],
      Inr (Some [\<lparr>mime_type = ''image/png'', data = ''bytes''\<rparr>]))"
  by (simp add: intake_def input_image_setup_def demo_upload_def demo_env_simps)

lemma intake_demo_pdf:
  "intake (demo_env (Inr [Inr ''page one'', Inr ''page two'']) answer table)
     (Some (demo_upload ''application/pdf'')) =
     ([St_subheader ''Uploaded PDF Content Preview'',
       St_text_area ''PDF Content'' ''page onepage two...'' 400],
      Inr (Some [\<lparr>mime_type = ''text/plain'', data = ''page onepage two''\<rparr>]))"
  by (simp add: intake_def process_pdf_def pdf_text_of_def demo_upload_def demo_env_simps)


lemma strip_piped: "py_strip piped_text \<noteq> []"
  by (simp add: py_strip_def py_lstrip_def py_rstrip_def strip_leading.simps py_whitespace_def
      piped_text_def)

lemma strip_header_only: "py_strip header_only_text \<noteq> []"
  by (simp add: py_strip_def py_lstrip_def py_rstrip_def strip_leading.simps py_whitespace_def
      header_only_text_def)

lemma strip_blank: "py_strip '' \<newline>'' = []"
  by (simp add: py_strip_def py_lstrip_def py_rstrip_def strip_leading.simps py_whitespace_def)

lemma strip_no_break_space: "py_strip no_break_space_text = []"
  by (simp add: py_strip_def py_lstrip_def py_rstrip_def strip_leading.simps py_whitespace_def
      no_break_space_text_def)



lemma intake_pdf_failure:
  "file_type f = ''application/pdf'' \<Longrightarrow> pdf_text_of env f = Inl e \<Longrightarrow>
   intake env (Some f) =
     ([St_error (''Error processing PDF: '' @ exc_str e)],
      Inl (none_has_no_attribute ''encode''))"
  by (simp add: intake_def process_pdf_def)

lemma pdf_text_of_demo:
  "pdf_text_of (demo_env pdf answer table) (demo_upload t) =
     (case pdf of Inl e \<Rightarrow> Inl e | Inr pages \<Rightarrow> get_text_pages pages [])"
  by (simp add: pdf_text_of_def demo_upload_def demo_env_simps)

lemma clean_piped:
  "clean_table piped_table =
     Inr \<lparr>columns = ['' Vendor Name '', '' Item Name ''],
          index = [IntLabel 0, IntLabel 1],
          rows = [[Some '' Acme '', Some '' Bolt ''], [Some '' Acme '', Some '' Nut '']]\<rparr>"
  by (simp add: clean_table_def drop_label_def loc_columns_def reset_index_def select_def
      contains_Unnamed_def piped_table_def upt_conv_Cons del: upt_Suc)


section \<open>The claims\<close>

subsection \<open>C1: responses that cannot be parsed\<close>




subsection \<open>C2: the error policy\<close>

text \<open>
  The claim C2 as written asks that a missing file be reported as a visible message. The
  top-level flow is guarded by \<^verbatim>\<open>if uploaded_file:\<close>, so with no upload the run
  shows the page head and neither an error nor a warning.
\<close>

theorem C2_no_file_counterexample:
  "filter is_message
     (events (script (demo_env (Inr []) (Inr piped_text) (Inr piped_table)) None)) = []"
  by (simp add: script_def intake_def extract_details_def demo_env_simps page_head_def)

text \<open>
  C2, amended. With the secret present: a failure of the hosted-model call and an empty
  response are reported by \<^verbatim>\<open>get_po_details\<close> and the run ends without an unhandled
  exception; a failure of the PDF text extraction is reported by \<^verbatim>\<open>process_pdf\<close>; a
  whitespace-only response and a response on which the parsing raises are reported by the
  parsing block and the run ends without an unhandled exception; with no upload the run
  shows the page head alone. The warning \<open>No file uploaded.\<close> is what
  \<^verbatim>\<open>input_image_setup\<close> shows when called without a file, a call the script never
  makes.
\<close>

theorem C2_errors_caught_and_reported:
  fixes env :: "'c env"
  assumes "secrets env ''GOOGLE_API_KEY'' = Inr k"
  shows
    "(intake env uploaded = (ev, Inr (Some (p # ps))) \<and>
      generate_content env ''gemini-1.5-flash'' p input_prompt = Inl e \<longrightarrow>
        St_error (''Error with Gemini model: '' @ exc_str e) \<in> set (events (script env uploaded)) \<and>
        unhandled (script env uploaded) = None) \<and>
     (intake env uploaded = (ev, Inr (Some (p # ps))) \<and>
      generate_content env ''gemini-1.5-flash'' p input_prompt = Inr [] \<longrightarrow>
        St_error (''Error with Gemini model: '' @ ''Empty response from the API.'')
          \<in> set (events (script env uploaded)) \<and>
        unhandled (script env uploaded) = None) \<and>
     (uploaded = Some f \<and> file_type f = ''application/pdf'' \<and> pdf_text_of env f = Inl e \<longrightarrow>
        St_error (''Error processing PDF: '' @ exc_str e) \<in> set (events (script env uploaded))) \<and>
     (intake env uploaded = (ev, Inr (Some (p # ps))) \<and>
      generate_content env ''gemini-1.5-flash'' p input_prompt = Inr r \<and>
      r \<noteq> [] \<and> py_strip r = [] \<longrightarrow>
        St_error ''The response is empty. Unable to extract data.''
          \<in> set (events (script env uploaded)) \<and>
        unhandled (script env uploaded) = None) \<and>
     (intake env uploaded = (ev, Inr (Some (p # ps))) \<and>
      generate_content env ''gemini-1.5-flash'' p input_prompt = Inr r \<and>
      py_strip r \<noteq> [] \<and>
      (read_csv env r = Inl e \<or> (\<exists>df. read_csv env r = Inr df \<and> clean_table df = Inl e)) \<longrightarrow>
        St_error (''Failed to process the response. Please try again. Error: '' @ exc_str e)
          \<in> set (events (script env uploaded)) \<and>
        unhandled (script env uploaded) = None) \<and>
     (uploaded = None \<longrightarrow>
        events (script env uploaded) = page_head \<and> unhandled (script env uploaded) = None) \<and>
     fst (input_image_setup None) = [St_warning ''No file uploaded.'' :: 'c event]"
proof -
  have a: "St_error (''Error with Gemini model: '' @ exc_str e) \<in> set (events (script env uploaded)) \<and>
        unhandled (script env uploaded) = None"
    if "intake env uploaded = (ev, Inr (Some (p # ps)))"
      "generate_content env ''gemini-1.5-flash'' p input_prompt = Inl e"
    using that by (simp add: script_result [OF assms] extract_details_raises)
  have b: "St_error (''Error with Gemini model: '' @ ''Empty response from the API.'')
          \<in> set (events (script env uploaded)) \<and>
        unhandled (script env uploaded) = None"
    if "intake env uploaded = (ev, Inr (Some (p # ps)))"
      "generate_content env ''gemini-1.5-flash'' p input_prompt = Inr []"
    using that by (simp add: script_result [OF assms] extract_details_empty)
  have c: "St_error (''Error processing PDF: '' @ exc_str e) \<in> set (events (script env uploaded))"
    if "uploaded = Some f" "file_type f = ''application/pdf''" "pdf_text_of env f = Inl e"
    using that by (simp add: script_abort [OF assms intake_pdf_failure])
  have d: "St_error ''The response is empty. Unable to extract data.''
          \<in> set (events (script env uploaded)) \<and>
        unhandled (script env uploaded) = None"
    if "intake env uploaded = (ev, Inr (Some (p # ps)))"
      "generate_content env ''gemini-1.5-flash'' p input_prompt = Inr r"
      "r \<noteq> []" "py_strip r = []"
    using that by (simp add: script_result [OF assms] extract_details_blank)
  have e: "St_error (''Failed to process the response. Please try again. Error: '' @ exc_str e)
          \<in> set (events (script env uploaded)) \<and>
        unhandled (script env uploaded) = None"
    if "intake env uploaded = (ev, Inr (Some (p # ps)))"
      "generate_content env ''gemini-1.5-flash'' p input_prompt = Inr r"
      "py_strip r \<noteq> []"
      "read_csv env r = Inl e \<or> (\<exists>df. read_csv env r = Inr df \<and> clean_table df = Inl e)"
    using that
    by (auto simp: script_result [OF assms] extract_details_text process_response_unreadable
        process_response_unclean)
  have f: "events (script env uploaded) = page_head \<and> unhandled (script env uploaded) = None"
    if "uploaded = None"
    using that assms by (simp add: script_def intake_def extract_details_def)
  have g: "fst (input_image_setup None) = [St_warning ''No file uploaded.'' :: 'c event]"
    by (simp add: input_image_setup_def)
  from a b c d e f g show ?thesis by blast
qed

theorem C2_errors_caught_and_reported_witness:
  "St_error (''Error with Gemini model: '' @ exc_str quota_error)
     \<in> set (events (script (demo_env (Inr []) (Inl quota_error) (Inr one_column_table))
          (Some (demo_upload ''image/png'')))) \<and>
   unhandled (script (demo_env (Inr []) (Inl quota_error) (Inr one_column_table))
      (Some (demo_upload ''image/png''))) = None \<and>
   St_error (''Error processing PDF: '' @ exc_str broken_pdf_error)
     \<in> set (events (script (demo_env (Inl broken_pdf_error) (Inr one_column_text)
            (Inr one_column_table)) (Some (demo_upload ''application/pdf'')))) \<and>
   events (script (demo_env (Inr []) (Inr one_column_text) (Inr one_column_table)) None)
     = page_head"
proof -
  let ?A = "demo_env (Inr []) (Inl quota_error) (Inr one_column_table)"
  let ?B = "demo_env (Inl broken_pdf_error) (Inr one_column_text) (Inr one_column_table)"
  let ?C = "demo_env (Inr []) (Inr one_column_text) (Inr one_column_table)"
  let ?p = "\<lparr>mime_type = ''image/png'', data = ''bytes''\<rparr>"
  note A = C2_errors_caught_and_reported [OF demo_env_simps(1), of "Inr []" "Inl quota_error"
      "Inr one_column_table" "Some (demo_upload ''image/png'')"
      "[St_image ''image'' ''Uploaded PO Image'' 800]" ?p "[]" quota_error]
  note B = C2_errors_caught_and_reported [OF demo_env_simps(1), of "Inl broken_pdf_error"
      "Inr one_column_text" "Inr one_column_table" "Some (demo_upload ''application/pdf'')"
      _ _ _ broken_pdf_error "demo_upload ''application/pdf''"]
  note C = C2_errors_caught_and_reported [OF demo_env_simps(1), of "Inr []"
      "Inr one_column_text" "Inr one_column_table" None]
  have t: "file_type (demo_upload ''application/pdf'') = ''application/pdf''"
    by (simp add: demo_upload_def)
  show ?thesis
    using A B C by (simp add: intake_demo_png demo_env_simps pdf_text_of_demo t)
qed

subsection \<open>C3: the first data row\<close>

text \<open>
  C3. Let the hosted model answer an upload with a text that is not blank, and let
  \<^verbatim>\<open>read_csv\<close> return for it a table of at least two rows labelled 0, 1, 2, ...
  (the labels pandas gives when no data line has more fields than the header). Then the
  cleaning succeeds: the rows of the final table are the rows of the table read without
  the first, each cut down to the retained columns; its first row is the second row read;
  and its labels are again 0, 1, 2, ... The final table is the only table the run can
  show, and it is shown unless \<^verbatim>\<open>st.dataframe\<close> raises on it.
\<close>

theorem C3_first_data_row_dropped:
  assumes "secrets env ''GOOGLE_API_KEY'' = Inr k"
    and "intake env uploaded = (ev, Inr (Some (p # ps)))"
    and "generate_content env ''gemini-1.5-flash'' p input_prompt = Inr r"
    and "py_strip r \<noteq> []"
    and "read_csv env r = Inr df"
    and "index df = map (\<lambda>i. IntLabel (int i)) [0..<length (rows df)]"
    and "2 \<le> length (rows df)"
  shows "\<exists>df'. clean_table df = Inr df' \<and>
      rows df' =
        map (select (map (\<lambda>name. \<not> contains_Unnamed name) (columns df))) (tl (rows df)) \<and>
      hd (rows df') =
        select (map (\<lambda>name. \<not> contains_Unnamed name) (columns df)) (rows df ! 1) \<and>
      length (rows df') = length (rows df) - 1 \<and>
      index df' = map (\<lambda>i. IntLabel (int i)) [0..<length (rows df')] \<and>
      filter is_dataframe (events (script env uploaded)) =
        (case st_dataframe env df' of Inl e \<Rightarrow> [] | Inr u \<Rightarrow> [St_dataframe df'])"
proof -
  let ?keep = "map (\<lambda>name. \<not> contains_Unnamed name) (columns df)"
  let ?df' = "\<lparr>columns = filter (\<lambda>name. \<not> contains_Unnamed name) (columns df),
          index = map (\<lambda>i. IntLabel (int i)) [0..<length (rows df) - 1],
          rows = map (select ?keep) (tl (rows df))\<rparr>"
  from assms(7) have ne: "rows df \<noteq> []" by auto
  have c: "clean_table df = Inr ?df'"
    by (rule clean_table_range [OF assms(6) ne])
  obtain ev' x where pr: "process_response env (Some r) = (ev', x)"
    by (cases "process_response env (Some r)")
  have "filter is_dataframe ev' =
      (case st_dataframe env ?df' of Inl e \<Rightarrow> [] | Inr u \<Rightarrow> [St_dataframe ?df'])"
    using process_response_clean [OF assms(4,5) c] pr by simp
  then have shown: "filter is_dataframe (events (script env uploaded)) =
      (case st_dataframe env ?df' of Inl e \<Rightarrow> [] | Inr u \<Rightarrow> [St_dataframe ?df'])"
    using pr intake_quiet [OF assms(2)]
    by (cases x)
      (simp_all add: script_result [OF assms(1,2)] extract_details_text [OF assms(3,4)]
        page_head_def)
  from assms(7) have "tl (rows df) \<noteq> []"
    by (cases "rows df"; cases "tl (rows df)") auto
  then have "hd (map (select ?keep) (tl (rows df))) = select ?keep (rows df ! 1)"
    using assms(7) by (simp add: hd_map hd_conv_nth nth_tl)
  with c shown show ?thesis by (simp split: sum.splits)
qed

theorem C3_first_data_row_dropped_witness:
  "2 \<le> length (rows piped_table) \<and>
   index piped_table = [IntLabel 0, IntLabel 1, IntLabel 2] \<and>
   py_strip piped_text \<noteq> [] \<and>
   clean_table piped_table =
     Inr \<lparr>columns = ['' Vendor Name '', '' Item Name ''],
          index = [IntLabel 0, IntLabel 1],
          rows = [[Some '' Acme '', Some '' Bolt ''], [Some '' Acme '', Some '' Nut '']]\<rparr> \<and>
   filter is_dataframe
     (events (script (demo_env (Inr []) (Inr piped_text) (Inr piped_table))
        (Some (demo_upload ''image/png'')))) =
     [St_dataframe
        \<lparr>columns = ['' Vendor Name '', '' Item Name ''],
         index = [IntLabel 0, IntLabel 1],
         rows = [[Some '' Acme '', Some '' Bolt ''], [Some '' Acme '', Some '' Nut '']]\<rparr>]"
proof -
  have i: "index piped_table = map (\<lambda>i. IntLabel (int i)) [0..<length (rows piped_table)]"
    by (simp add: piped_table_def upt_conv_Cons del: upt_Suc)
  have n: "2 \<le> length (rows piped_table)"
    and l: "index piped_table = [IntLabel 0, IntLabel 1, IntLabel 2]"
    by (simp_all add: piped_table_def)
  from C3_first_data_row_dropped [OF demo_env_simps(1) intake_demo_png demo_env_simps(4)
      strip_piped demo_env_simps(5) i n, of "Inr []"]
  show ?thesis
    using clean_piped n l strip_piped by (auto simp: demo_env_simps)
qed

subsection \<open>C4: the placeholder columns\<close>



subsection \<open>C5: the empty response\<close>

text \<open>
  C5. When the hosted model returns an empty or whitespace-only text, the run reports an
  error (for the empty text the one of \<^verbatim>\<open>get_po_details\<close>, for the whitespace-only
  text the one of the parsing block), \<^verbatim>\<open>read_csv\<close> is not called, no table is shown
  and no download is offered; the run ends without an unhandled exception.
\<close>

theorem C5_empty_response_no_table:
  assumes "secrets env ''GOOGLE_API_KEY'' = Inr k"
    and "intake env uploaded = (ev, Inr (Some (p # ps)))"
    and "generate_content env ''gemini-1.5-flash'' p input_prompt = Inr r"
    and "py_strip r = []"
  shows "St_error
           (if r = [] then ''Error with Gemini model: '' @ ''Empty response from the API.''
            else ''The response is empty. Unable to extract data.'')
           \<in> set (events (script env uploaded)) \<and>
         filter is_read_csv (events (script env uploaded)) = [] \<and>
         filter is_dataframe (events (script env uploaded)) = [] \<and>
         filter is_download_button (events (script env uploaded)) = [] \<and>
         unhandled (script env uploaded) = None"
  using assms(3,4) intake_quiet [OF assms(2)]
  by (cases "r = []")
    (simp_all add: script_result [OF assms(1,2)] extract_details_empty extract_details_blank
      page_head_def)

theorem C5_empty_response_no_table_witness:
  "St_error ''The response is empty. Unable to extract data.''
     \<in> set (events (script (demo_env (Inr []) (Inr '' \<newline>'') (Inr piped_table))
          (Some (demo_upload ''image/png'')))) \<and>
   filter is_dataframe
     (events (script (demo_env (Inr []) (Inr '' \<newline>'') (Inr piped_table))
        (Some (demo_upload ''image/png'')))) = [] \<and>
   St_error ''Error with Gemini model: Empty response from the API.''
     \<in> set (events (script (demo_env (Inr []) (Inr []) (Inr piped_table))
          (Some (demo_upload ''image/png'')))) \<and>
   filter is_dataframe
     (events (script (demo_env (Inr []) (Inr []) (Inr piped_table))
        (Some (demo_upload ''image/png'')))) = [] \<and>
   St_error ''The response is empty. Unable to extract data.''
     \<in> set (events (script (demo_env (Inr []) (Inr no_break_space_text) (Inr piped_table))
          (Some (demo_upload ''image/png'')))) \<and>
   filter is_read_csv
     (events (script (demo_env (Inr []) (Inr no_break_space_text) (Inr piped_table))
        (Some (demo_upload ''image/png'')))) = []"
  using C5_empty_response_no_table [OF demo_env_simps(1) intake_demo_png demo_env_simps(4)
      strip_blank, of "Inr []" "Inr piped_table"]
    C5_empty_response_no_table [OF demo_env_simps(1) intake_demo_png demo_env_simps(4)
      py_strip_Nil, of "Inr []" "Inr piped_table"]
    C5_empty_response_no_table [OF demo_env_simps(1) intake_demo_png demo_env_simps(4)
      strip_no_break_space, of "Inr []" "Inr piped_table"]
  by (simp add: no_break_space_text_def)

subsection \<open>C6: unsupported media types\<close>

text \<open>
  C6. For an upload whose media type is none of image/jpeg, image/png, image/jpg and
  application/pdf, the run shows the page head alone (nothing at all when the secret
  lookup fails): the hosted model is not called and no download is offered.
\<close>

theorem C6_unsupported_type_no_action:
  assumes "file_type f \<notin> set [''image/jpeg'', ''image/png'', ''image/jpg'', ''application/pdf'']"
  shows "events (script env (Some f)) =
           (case secrets env ''GOOGLE_API_KEY'' of Inl e \<Rightarrow> [] | Inr k \<Rightarrow> page_head) \<and>
         filter is_generate_content (events (script env (Some f))) = [] \<and>
         filter is_download_button (events (script env (Some f))) = []"
  using assms
  by (cases "secrets env ''GOOGLE_API_KEY''")
    (simp_all add: script_def intake_def extract_details_def page_head_def)

theorem C6_unsupported_type_no_action_witness:
  "file_type (demo_upload ''image/gif'')
     \<notin> set [''image/jpeg'', ''image/png'', ''image/jpg'', ''application/pdf''] \<and>
   events (script (demo_env (Inr []) (Inr piped_text) (Inr piped_table))
     (Some (demo_upload ''image/gif''))) = page_head \<and>
   filter is_generate_content
     (events (script (demo_env (Inr []) (Inr piped_text) (Inr piped_table))
        (Some (demo_upload ''image/gif'')))) = []"
proof -
  have t: "file_type (demo_upload ''image/gif'')
     \<notin> set [''image/jpeg'', ''image/png'', ''image/jpg'', ''application/pdf'']"
    by (simp add: demo_upload_def)
  from C6_unsupported_type_no_action [OF t, of "demo_env (Inr []) (Inr piped_text) (Inr piped_table)"] t
  show ?thesis
    by (simp add: demo_env_simps page_head_def)
qed


subsection \<open>C7: one call per run\<close>

text \<open>
  The claim C7 as written asks for exactly one call for every uploaded document. For a
  PDF that PyMuPDF cannot open, the run issues no call at all.
\<close>

theorem C7_failed_pdf_counterexample:
  "filter is_generate_content
     (events (script (demo_env (Inl broken_pdf_error) (Inr piped_text) (Inr piped_table))
        (Some (demo_upload ''application/pdf'')))) = []"
proof -
  have t: "file_type (demo_upload ''application/pdf'') = ''application/pdf''"
    by (simp add: demo_upload_def)
  have p: "pdf_text_of (demo_env (Inl broken_pdf_error) (Inr piped_text) (Inr piped_table))
             (demo_upload ''application/pdf'') = Inl broken_pdf_error"
    by (simp add: pdf_text_of_demo)
  show ?thesis
    by (simp add: script_abort [OF demo_env_simps(1) intake_pdf_failure [OF t p]] page_head_def)
qed

text \<open>
  C7, amended. A run of the script calls the hosted model exactly once when the secret is
  present and the intake yields a non-empty payload, and not at all otherwise. The count
  does not depend on what the call returns or raises: there is no retry.
\<close>

theorem C7_single_call_never_retried:
  "length (filter is_generate_content (events (script env uploaded))) =
     (if (\<exists>k. secrets env ''GOOGLE_API_KEY'' = Inr k) \<and>
         (\<exists>ev p ps. intake env uploaded = (ev, Inr (Some (p # ps))))
      then 1 else 0)"
proof (cases "secrets env ''GOOGLE_API_KEY''")
  case (Inl x)
  then show ?thesis by (simp add: script_no_secret)
next
  case secret: (Inr k)
  obtain ev res where i: "intake env uploaded = (ev, res)"
    by (cases "intake env uploaded")
  note quiet = intake_quiet [OF i]
  show ?thesis
  proof (cases res)
    case (Inl e)
    with secret i quiet show ?thesis
      by (simp add: script_abort page_head_def)
  next
    case (Inr d)
    with secret i quiet show ?thesis
      by (simp add: script_result page_head_def extract_details_count
          split: option.splits list.splits)
  qed
qed

theorem C7_single_call_never_retried_witness:
  "length (filter is_generate_content
     (events (script (demo_env (Inr []) (Inr piped_text) (Inr piped_table))
        (Some (demo_upload ''image/png''))))) = 1 \<and>
   length (filter is_generate_content
     (events (script (demo_env (Inr []) (Inl quota_error) (Inr piped_table))
        (Some (demo_upload ''image/png''))))) = 1 \<and>
   length (filter is_generate_content
     (events (script (demo_env (Inr []) (Inr []) (Inr piped_table))
        (Some (demo_upload ''image/png''))))) = 1 \<and>
   length (filter is_generate_content
     (events (script (demo_env (Inr [Inr ''page one'', Inr ''page two'']) (Inr piped_text)
                (Inr piped_table))
        (Some (demo_upload ''application/pdf''))))) = 1"
  using C7_single_call_never_retried [of "demo_env (Inr []) (Inr piped_text) (Inr piped_table)"
      "Some (demo_upload ''image/png'')"]
    C7_single_call_never_retried [of "demo_env (Inr []) (Inl quota_error) (Inr piped_table)"
      "Some (demo_upload ''image/png'')"]
    C7_single_call_never_retried [of "demo_env (Inr []) (Inr []) (Inr piped_table)"
      "Some (demo_upload ''image/png'')"]
    C7_single_call_never_retried [of "demo_env (Inr [Inr ''page one'', Inr ''page two''])
      (Inr piped_text) (Inr piped_table)" "Some (demo_upload ''application/pdf'')"]
  by (simp add: demo_env_simps intake_demo_png intake_demo_pdf)

subsection \<open>C9: a PDF that cannot be read\<close>

text \<open>
  C9. When the text extraction of an uploaded PDF raises, \<^verbatim>\<open>process_pdf\<close> reports
  the error and returns None, and the run then ends with the unhandled AttributeError of
  \<^verbatim>\<open>pdf_text.encode()\<close>, after the page head and that one error message.
\<close>

theorem C9_pdf_failure_unhandled:
  assumes "secrets env ''GOOGLE_API_KEY'' = Inr k"
    and "file_type f = ''application/pdf''"
    and "pdf_text_of env f = Inl e"
  shows "process_pdf env f = ([St_error (''Error processing PDF: '' @ exc_str e)], None) \<and>
         script env (Some f) =
           \<lparr>events = page_head @ [St_error (''Error processing PDF: '' @ exc_str e)],
            unhandled = Some (none_has_no_attribute ''encode'')\<rparr>"
  using assms(3)
  by (simp add: script_abort [OF assms(1) intake_pdf_failure [OF assms(2,3)]] process_pdf_def)

theorem C9_pdf_failure_unhandled_witness:
  "pdf_text_of (demo_env (Inl broken_pdf_error) (Inr piped_text) (Inr piped_table))
     (demo_upload ''application/pdf'') = Inl broken_pdf_error \<and>
   script (demo_env (Inl broken_pdf_error) (Inr piped_text) (Inr piped_table))
     (Some (demo_upload ''application/pdf'')) =
     \<lparr>events = page_head @ [St_error ''Error processing PDF: Failed to open file''],
      unhandled =
        Some (Exc ''AttributeError''
               (quoted ''NoneType'' @ '' object has no attribute '' @ quoted ''encode''))\<rparr>"
proof -
  have t: "file_type (demo_upload ''application/pdf'') = ''application/pdf''"
    by (simp add: demo_upload_def)
  have p: "pdf_text_of (demo_env (Inl broken_pdf_error) (Inr piped_text) (Inr piped_table))
             (demo_upload ''application/pdf'') = Inl broken_pdf_error"
    by (simp add: pdf_text_of_demo)
  from C9_pdf_failure_unhandled [OF demo_env_simps(1) t p] p
  show ?thesis
    by (simp add: broken_pdf_error_def none_has_no_attribute_def)
qed

subsection \<open>C10: a table without data rows\<close>

text \<open>
  C10. When the response is not blank and the table read from it has no rows, dropping
  the label 0 raises KeyError; the handler reports it as a failure message, no table is
  shown, no download is offered, and the run ends without an unhandled exception.
\<close>

theorem C10_no_data_rows_key_error:
  assumes "secrets env ''GOOGLE_API_KEY'' = Inr k"
    and "intake env uploaded = (ev, Inr (Some (p # ps)))"
    and "generate_content env ''gemini-1.5-flash'' p input_prompt = Inr r"
    and "py_strip r \<noteq> []"
    and "read_csv env r = Inr df"
    and "rows df = []"
    and "length (index df) = length (rows df)"
  shows "clean_table df = Inl (Exc ''KeyError'' (quoted ''[0] not found in axis'')) \<and>
         script env uploaded =
           \<lparr>events = page_head @ ev @
              [St_subheader ''Extracted Purchase Order Details'',
               Generate_content ''gemini-1.5-flash'' p input_prompt,
               Read_csv r,
               St_error (''Failed to process the response. Please try again. Error: ''
                         @ quoted ''[0] not found in axis'')],
            unhandled = None\<rparr> \<and>
         filter is_dataframe (events (script env uploaded)) = [] \<and>
         filter is_download_button (events (script env uploaded)) = []"
proof -
  from assms(6,7) have "IntLabel 0 \<notin> set (index df)" by simp
  then have c: "clean_table df = Inl (Exc ''KeyError'' (quoted ''[0] not found in axis''))"
    by (rule clean_table_no_zero)
  have run: "script env uploaded =
           \<lparr>events = page_head @ ev @
              [St_subheader ''Extracted Purchase Order Details'',
               Generate_content ''gemini-1.5-flash'' p input_prompt,
               Read_csv r,
               St_error (''Failed to process the response. Please try again. Error: ''
                         @ quoted ''[0] not found in axis'')],
            unhandled = None\<rparr>"
    by (simp add: script_result [OF assms(1,2)] extract_details_text [OF assms(3,4)]
        process_response_unclean [OF assms(4,5) c])
  show ?thesis
    using c intake_quiet [OF assms(2)] by (simp add: run page_head_def)
qed

theorem C10_no_data_rows_key_error_witness:
  "rows header_only_table = [] \<and>
   py_strip header_only_text \<noteq> [] \<and>
   script (demo_env (Inr []) (Inr header_only_text) (Inr header_only_table))
     (Some (demo_upload ''image/png'')) =
     \<lparr>events = page_head @
        [St_image ''image'' ''Uploaded PO Image'' 800,
         St_subheader ''Extracted Purchase Order Details'',
         Generate_content ''gemini-1.5-flash'' \<lparr>mime_type = ''image/png'', data = ''bytes''\<rparr>
           input_prompt,
         Read_csv header_only_text,
         St_error (''Failed to process the response. Please try again. Error: ''
                   @ quoted ''[0] not found in axis'')],
      unhandled = None\<rparr>"
proof -
  have r: "rows header_only_table = []"
    and l: "length (index header_only_table) = length (rows header_only_table)"
    by (simp_all add: header_only_table_def)
  from C10_no_data_rows_key_error [OF demo_env_simps(1) intake_demo_png demo_env_simps(4)
      strip_header_only demo_env_simps(5) r l, of "Inr []"] r strip_header_only
  show ?thesis
    by simp
qed

end
